theory Spec2Isabelle
  imports Complex_Main "HOL-Library.Sublist"
begin

section \<open>JavaScript strings\<close>

text \<open>
  A JavaScript string is a sequence of UTF-16 code units; a code unit is modelled as a
  natural number. ASCII literals of the source are written \<open>str ''...''\<close>.
\<close>

type_synonym jsstring = "nat list"

definition str :: "string \<Rightarrow> jsstring" where
  "str s = map of_char s"

text \<open>
  The character class \<open>\s\<close> of a JavaScript regular expression, which is also the set
  that \<open>String.prototype.trim\<close> strips: WhiteSpace (TAB, VT, FF, SP, NBSP, ZWNBSP and
  the space separators) and LineTerminator (LF, CR, LS, PS).
\<close>

definition isWhiteSpace :: "nat \<Rightarrow> bool" where
  "isWhiteSpace c =
     (c = 9 \<or> c = 10 \<or> c = 11 \<or> c = 12 \<or> c = 13 \<or> c = 32 \<or> c = 160 \<or> c = 5760
      \<or> (8192 \<le> c \<and> c \<le> 8202) \<or> c = 8232 \<or> c = 8233 \<or> c = 8239 \<or> c = 8287
      \<or> c = 12288 \<or> c = 65279)"

text \<open>The class \<open>\w\<close> is \<open>[A-Za-z0-9_]\<close>; \<open>\W\<close> is its complement.\<close>

definition isWordChar :: "nat \<Rightarrow> bool" where
  "isWordChar c =
     ((48 \<le> c \<and> c \<le> 57) \<or> (65 \<le> c \<and> c \<le> 90) \<or> c = 95 \<or> (97 \<le> c \<and> c \<le> 122))"

definition isNonWordChar :: "nat \<Rightarrow> bool" where
  "isNonWordChar c = (\<not> isWordChar c)"

text \<open>\<open>s.trim()\<close>\<close>

definition trim :: "jsstring \<Rightarrow> jsstring" where
  "trim s = rev (dropWhile isWhiteSpace (rev (dropWhile isWhiteSpace s)))"

section \<open>core/base-scraper.ts: text cleaning\<close>

text \<open>
  \<open>text.replace(/\s+/g, ' ')\<close>: scanning from the left, every maximal run of white
  space is replaced by one SPACE (code unit 32).
\<close>

function replaceWhiteSpaceRuns :: "jsstring \<Rightarrow> jsstring" where
  "replaceWhiteSpaceRuns [] = []"
| "replaceWhiteSpaceRuns (c # cs) =
     (if isWhiteSpace c then 32 # replaceWhiteSpaceRuns (dropWhile isWhiteSpace cs)
      else c # replaceWhiteSpaceRuns cs)"
  by pat_completeness auto
termination
  by (relation "measure length") (auto simp: length_dropWhile_le less_Suc_eq_le)

text \<open>
  \<open>text.replace(/^\W+|\W+$/g, '')\<close>: the first alternative can match only at index 0
  and deletes the maximal leading run of non-word characters; the second alternative
  matches at the leftmost later index from which everything up to the end of the input
  is a non-word character, and deletes that trailing run.
\<close>

definition stripNonWordEnds :: "jsstring \<Rightarrow> jsstring" where
  "stripNonWordEnds s = rev (dropWhile isNonWordChar (rev (dropWhile isNonWordChar s)))"

definition cleanText :: "jsstring \<Rightarrow> jsstring" where
  "cleanText text = trim (stripNonWordEnds (replaceWhiteSpaceRuns text))"

text \<open>
  A string is in white-space normal form when every white-space code unit in it is a
  SPACE that is not followed by another white-space code unit.
\<close>

fun wsNormal :: "jsstring \<Rightarrow> bool" where
  "wsNormal [] = True"
| "wsNormal (c # cs) =
     ((isWhiteSpace c \<longrightarrow> c = 32 \<and> (case cs of [] \<Rightarrow> True | d # _ \<Rightarrow> \<not> isWhiteSpace d))
      \<and> wsNormal cs)"

section \<open>core/base-scraper.ts: selector-driven extraction\<close>

text \<open>
  The parsed document is the cheerio root \<open>$\<close>, here \<open>dollar\<close>: applied to a selector it gives the
  selection, the list of matched elements in document order. An element carries its
  attributes and its text content (the text of the element and of its descendants).
  The HTML parser and the selector engine are the cheerio library; the model is
  parametric in it.
\<close>

record element =
  attribs :: "(jsstring \<times> jsstring) list"
  textContent :: jsstring

type_synonym cheerioRoot = "jsstring \<Rightarrow> element list"

text \<open>
  \<open>selection.attr(name)\<close>: the attribute of the first element of the selection,
  \<open>undefined\<close> (here \<open>None\<close>) when the selection is empty or the element has no such
  attribute.
\<close>

fun attr :: "element list \<Rightarrow> jsstring \<Rightarrow> jsstring option" where
  "attr [] name = None"
| "attr (el # els) name = map_of (attribs el) name"

text \<open>\<open>selection.text()\<close>: the text contents of all elements of the selection, concatenated.\<close>

definition selectionText :: "element list \<Rightarrow> jsstring" where
  "selectionText els = concat (map textContent els)"

text \<open>\<open>a || b\<close> on an optional string: \<open>undefined\<close> and the empty string are falsy.\<close>

fun orElse :: "jsstring option \<Rightarrow> jsstring \<Rightarrow> jsstring" where
  "orElse None b = b"
| "orElse (Some a) b = (if a = [] then b else a)"

text \<open>\<open>extractWithSelectors\<close>: the \<open>for\<close> loop over the selectors, with its early return.\<close>

fun extractWithSelectors :: "cheerioRoot \<Rightarrow> jsstring list \<Rightarrow> jsstring" where
  "extractWithSelectors dollar [] = []"
| "extractWithSelectors dollar (selector # selectors) =
     (let element = dollar selector in
      if length element > 0 then
        (let content = orElse (attr element (str ''content'')) (trim (selectionText element)) in
         if content \<noteq> [] then content else extractWithSelectors dollar selectors)
      else extractWithSelectors dollar selectors)"

text \<open>
  The content that one selector yields, in the words of the specification: when the
  selector matches, the explicit \<open>content\<close> attribute if there is a non-empty one, else
  the trimmed text; nothing (the empty string) when the selector matches no element.
\<close>

definition yieldedContent :: "cheerioRoot \<Rightarrow> jsstring \<Rightarrow> jsstring" where
  "yieldedContent dollar selector =
     (case dollar selector of
        [] \<Rightarrow> []
      | el # els \<Rightarrow>
          (case map_of (attribs el) (str ''content'') of
             None \<Rightarrow> trim (concat (map textContent (el # els)))
           | Some a \<Rightarrow> if a \<noteq> [] then a else trim (concat (map textContent (el # els)))))"

text \<open>
  \<open>extractArrayWithSelectors\<close>: the inner \<open>each\<close> callback pushes the trimmed text of an
  element unless it is empty or already in \<open>results\<close>; the outer loop runs over the
  selectors with the same \<open>results\<close> array.
\<close>

fun eachElement :: "element list \<Rightarrow> jsstring list \<Rightarrow> jsstring list" where
  "eachElement [] results = results"
| "eachElement (el # els) results =
     (let text = trim (textContent el) in
      if text \<noteq> [] \<and> text \<notin> set results
      then eachElement els (results @ [text])
      else eachElement els results)"

fun extractArrayLoop :: "cheerioRoot \<Rightarrow> jsstring list \<Rightarrow> jsstring list \<Rightarrow> jsstring list" where
  "extractArrayLoop dollar [] results = results"
| "extractArrayLoop dollar (selector # selectors) results =
     extractArrayLoop dollar selectors (eachElement (dollar selector) results)"

definition extractArrayWithSelectors :: "cheerioRoot \<Rightarrow> jsstring list \<Rightarrow> jsstring list" where
  "extractArrayWithSelectors dollar selectors = extractArrayLoop dollar selectors []"

text \<open>
  The \<open>tags\<close> field that \<open>extractGenericMetadata\<close> computes from the parsed document and
  the tag selectors of the platform:
  \<open>extractArrayWithSelectors($, selectors.tags).map(tag => cleanText(tag)).filter(tag => tag.length > 0)\<close>.
\<close>

definition extractGenericMetadata_tags :: "cheerioRoot \<Rightarrow> jsstring list \<Rightarrow> jsstring list" where
  "extractGenericMetadata_tags dollar tagSelectors =
     filter (\<lambda>tag. length tag > 0) (map (\<lambda>tag. cleanText tag) (extractArrayWithSelectors dollar tagSelectors))"

text \<open>
  A document with two tag elements, as parsed from
  \<open><a class="tag">nature</a><a class="tag">nature,</a>\<close>.
\<close>

definition twoTagsDocument :: cheerioRoot where
  "twoTagsDocument selector =
     (if selector = str ''.tag''
      then [\<lparr>attribs = [(str ''class'', str ''tag'')], textContent = str ''nature''\<rparr>,
            \<lparr>attribs = [(str ''class'', str ''tag'')], textContent = str ''nature,''\<rparr>]
      else [])"

text \<open>
  A document with a title element and an Open Graph title, as parsed from
  \<open><h1> Sunset </h1><meta property="og:title" content="Sunset over sea">\<close>.
\<close>

definition titleDocument :: cheerioRoot where
  "titleDocument selector =
     (if selector = str ''h1''
      then [\<lparr>attribs = [], textContent = str '' Sunset ''\<rparr>]
      else if selector = str ''meta[property=\"og:title\"]''
      then [\<lparr>attribs = [(str ''property'', str ''og:title''), (str ''content'', str ''Sunset over sea'')],
             textContent = []\<rparr>]
      else [])"

section \<open>core/scraper-engine.ts\<close>

text \<open>A thrown \<open>new Error(message)\<close>; every function that can throw returns \<open>error + 'a\<close>.\<close>

datatype error = Error jsstring

fun message :: "error \<Rightarrow> jsstring" where
  "message (Error m) = m"

text \<open>\<open>array.join(separator)\<close>\<close>

fun join :: "jsstring \<Rightarrow> jsstring list \<Rightarrow> jsstring" where
  "join separator [] = []"
| "join separator [x] = x"
| "join separator (x # y # ys) = x @ separator @ join separator (y # ys)"

text \<open>\<open>s.includes(sub)\<close>: \<open>sub\<close> occurs in \<open>s\<close> as a contiguous block of code units.\<close>

fun startsWith :: "jsstring \<Rightarrow> jsstring \<Rightarrow> bool" where
  "startsWith s [] = True"
| "startsWith [] (p # ps) = False"
| "startsWith (c # cs) (p # ps) = (c = p \<and> startsWith cs ps)"

fun stringIncludes :: "jsstring \<Rightarrow> jsstring \<Rightarrow> bool" where
  "stringIncludes [] sub = (sub = [])"
| "stringIncludes (c # cs) sub = (startsWith (c # cs) sub \<or> stringIncludes cs sub)"

subsection \<open>The platform patterns\<close>

text \<open>
  Every regular expression of \<open>platformPatterns\<close> is an alternation of literal texts with
  the flag \<open>i\<close> and no anchor, for instance \<open>/example\.com|test\.com|localhost/i\<close>.
  \<open>IgnoreCase alts\<close> is the expression whose alternatives match the texts \<open>alts\<close>
  (with the dots of the source escaped).

  Under the flag \<open>i\<close> two code units match when their canonical forms are equal. The
  canonical form of an ASCII letter is its upper-case letter; the canonical form of a
  code unit above 127 is never an ASCII code unit, and the literals here are ASCII, so
  the model leaves the other code units as they are.
\<close>

datatype regexp = IgnoreCase "jsstring list"

definition canonicalize :: "nat \<Rightarrow> nat" where
  "canonicalize c = (if 97 \<le> c \<and> c \<le> 122 then c - 32 else c)"

fun matchesAt :: "jsstring \<Rightarrow> jsstring \<Rightarrow> bool" where
  "matchesAt [] input = True"
| "matchesAt (p # ps) [] = False"
| "matchesAt (p # ps) (c # cs) = (canonicalize p = canonicalize c \<and> matchesAt ps cs)"

fun includesIgnoreCase :: "jsstring \<Rightarrow> jsstring \<Rightarrow> bool" where
  "includesIgnoreCase literal [] = (literal = [])"
| "includesIgnoreCase literal (c # cs) = (matchesAt literal (c # cs) \<or> includesIgnoreCase literal cs)"

text \<open>\<open>pattern.test(url)\<close>: some alternative matches at some index of the input.\<close>

fun test :: "regexp \<Rightarrow> jsstring \<Rightarrow> bool" where
  "test (IgnoreCase alts) input = list_ex (\<lambda>literal. includesIgnoreCase literal input) alts"

text \<open>\<open>pattern.source\<close>: the text of the expression, where a literal dot is written \<open>\.\<close>.\<close>

fun escapeDots :: "jsstring \<Rightarrow> jsstring" where
  "escapeDots [] = []"
| "escapeDots (c # cs) = (if c = 46 then 92 # 46 # escapeDots cs else c # escapeDots cs)"

fun source :: "regexp \<Rightarrow> jsstring" where
  "source (IgnoreCase alts) = join (str ''|'') (map escapeDots alts)"

text \<open>\<open>s.replace(/\\\./g, '.')\<close>: every backslash followed by a dot becomes a dot.\<close>

fun unescapeDots :: "jsstring \<Rightarrow> jsstring" where
  "unescapeDots (c # d # cs) =
     (if c = 92 \<and> d = 46 then 46 # unescapeDots cs else c # unescapeDots (d # cs))"
| "unescapeDots cs = cs"

text \<open>The object literal \<open>platformPatterns\<close>; \<open>Object.entries\<close> lists it in this order.\<close>

definition platformPatterns :: "(jsstring \<times> regexp) list" where
  "platformPatterns =
     [(str ''shutterstock'', IgnoreCase [str ''shutterstock.com'']),
      (str ''freepik'', IgnoreCase [str ''freepik.com'']),
      (str ''adobe-stock'', IgnoreCase [str ''stock.adobe.com'']),
      (str ''getty-images'', IgnoreCase [str ''gettyimages.com'']),
      (str ''dreamstime'', IgnoreCase [str ''dreamstime.com'']),
      (str ''iconscout'', IgnoreCase [str ''iconscout.com'']),
      (str ''pond5'', IgnoreCase [str ''pond5.com'']),
      (str ''arabstock'', IgnoreCase [str ''arabstock.com'']),
      (str ''vecteezy'', IgnoreCase [str ''vecteezy.com'']),
      (str ''creative-fabrica'', IgnoreCase [str ''creativefabrica.com'']),
      (str ''mock'', IgnoreCase [str ''example.com'', str ''test.com'', str ''localhost''])]"

text \<open>The \<open>for\<close> loop of \<open>identifyPlatform\<close> over the entries, with its early return.\<close>

fun identifyLoop :: "(jsstring \<times> regexp) list \<Rightarrow> jsstring \<Rightarrow> jsstring option" where
  "identifyLoop [] url = None"
| "identifyLoop ((platform, pattern) # entries) url =
     (if test pattern url then Some platform else identifyLoop entries url)"

definition unsupportedPlatformMessage :: jsstring where
  "unsupportedPlatformMessage =
     str ''Unsupported platform URL. Supported domains: '' @
     join (str '', '') (map (\<lambda>p. unescapeDots (source p)) (map snd platformPatterns))"

definition identifyPlatform :: "jsstring \<Rightarrow> error + jsstring" where
  "identifyPlatform url =
     (case identifyLoop platformPatterns url of
        Some platform \<Rightarrow> Inr platform
      | None \<Rightarrow> Inl (Error unsupportedPlatformMessage))"

record platformEntry =
  name :: jsstring
  domain :: jsstring
  platformId :: jsstring

definition getSupportedPlatforms :: "platformEntry list" where
  "getSupportedPlatforms =
     [\<lparr>name = str ''Adobe Stock'', domain = str ''stock.adobe.com'', platformId = str ''adobe-stock''\<rparr>,
      \<lparr>name = str ''Shutterstock'', domain = str ''shutterstock.com'', platformId = str ''shutterstock''\<rparr>,
      \<lparr>name = str ''Freepik'', domain = str ''freepik.com'', platformId = str ''freepik''\<rparr>,
      \<lparr>name = str ''Getty Images'', domain = str ''gettyimages.com'', platformId = str ''getty-images''\<rparr>,
      \<lparr>name = str ''Dreamstime'', domain = str ''dreamstime.com'', platformId = str ''dreamstime''\<rparr>,
      \<lparr>name = str ''Iconscout'', domain = str ''iconscout.com'', platformId = str ''iconscout''\<rparr>,
      \<lparr>name = str ''Pond5'', domain = str ''pond5.com'', platformId = str ''pond5''\<rparr>,
      \<lparr>name = str ''Arabstock'', domain = str ''arabstock.com'', platformId = str ''arabstock''\<rparr>,
      \<lparr>name = str ''Vecteezy'', domain = str ''vecteezy.com'', platformId = str ''vecteezy''\<rparr>,
      \<lparr>name = str ''Creative Fabrica'', domain = str ''creativefabrica.com'', platformId = str ''creative-fabrica''\<rparr>,
      \<lparr>name = str ''Mock Platform (Testing)'', domain = str ''example.com'', platformId = str ''mock''\<rparr>]"

text \<open>The entries of \<open>platformPatterns\<close> that the loop tests before the entry of a platform.\<close>

definition earlierPatterns :: "jsstring \<Rightarrow> (jsstring \<times> regexp) list" where
  "earlierPatterns platform = takeWhile (\<lambda>entry. fst entry \<noteq> platform) platformPatterns"

definition matchesSomePattern :: "(jsstring \<times> regexp) list \<Rightarrow> jsstring \<Rightarrow> bool" where
  "matchesSomePattern entries input = list_ex (\<lambda>entry. test (snd entry) input) entries"

text \<open>
  The host of an absolute URL of the shape \<open>scheme://host/path?query#fragment\<close> (no
  user information): the code units after the first \<open>://\<close>, up to the next \<open>/\<close>, \<open>?\<close>,
  \<open>#\<close> or \<open>:\<close>. The source never computes a host; the definition states what the
  host of the example URLs is.
\<close>

fun afterScheme :: "jsstring \<Rightarrow> jsstring" where
  "afterScheme (a # b # c # cs) =
     (if a = 58 \<and> b = 47 \<and> c = 47 then cs else afterScheme (b # c # cs))"
| "afterScheme cs = []"

definition urlHost :: "jsstring \<Rightarrow> jsstring" where
  "urlHost url = takeWhile (\<lambda>c. c \<noteq> 47 \<and> c \<noteq> 63 \<and> c \<noteq> 35 \<and> c \<noteq> 58) (afterScheme url)"

subsection \<open>Scalar fields: the first selector with content wins\<close>

lemma extractWithSelectors_step:
  "extractWithSelectors dollar (selector # selectors) =
     (if yieldedContent dollar selector \<noteq> [] then yieldedContent dollar selector
      else extractWithSelectors dollar selectors)"
  by (cases "dollar selector")
     (auto simp: yieldedContent_def selectionText_def Let_def split: option.splits)

lemma extractWithSelectors_skip:
  "\<forall>p \<in> set pre. yieldedContent dollar p = [] \<Longrightarrow>
   extractWithSelectors dollar (pre @ rest) = extractWithSelectors dollar rest"
  by (induction pre) (simp_all only: extractWithSelectors_step append.simps list.set, auto)

text \<open>
  Claim C2. For every selector list and every parsed document, scalar-field extraction
  returns the content yielded by the first selector of the list that yields non-empty
  content (the explicit \<open>content\<close> attribute when there is a non-empty one, else the
  trimmed text), whatever the later selectors are; it returns the empty string when no
  selector yields non-empty content.
\<close>

theorem extractWithSelectors_first_nonempty:
  "(\<forall>pre selector post.
      selectors = pre @ selector # post \<and> (\<forall>p \<in> set pre. yieldedContent dollar p = []) \<and>
      yieldedContent dollar selector \<noteq> [] \<longrightarrow>
      extractWithSelectors dollar selectors = yieldedContent dollar selector) \<and>
   ((\<forall>p \<in> set selectors. yieldedContent dollar p = []) \<longrightarrow>
      extractWithSelectors dollar selectors = [])"
proof (intro conjI allI impI)
  fix pre selector post
  assume a: "selectors = pre @ selector # post \<and> (\<forall>p \<in> set pre. yieldedContent dollar p = []) \<and>
      yieldedContent dollar selector \<noteq> []"
  then have "extractWithSelectors dollar selectors = extractWithSelectors dollar (selector # post)"
    using extractWithSelectors_skip [of pre dollar "selector # post"] by simp
  with a show "extractWithSelectors dollar selectors = yieldedContent dollar selector"
    by (simp add: extractWithSelectors_step del: extractWithSelectors.simps)
next
  assume "\<forall>p \<in> set selectors. yieldedContent dollar p = []"
  then show "extractWithSelectors dollar selectors = []"
    using extractWithSelectors_skip [of selectors dollar "[]"] by simp
qed

lemma titleDocument_example:
  "yieldedContent titleDocument (str ''.asset-title'') = [] \<and>
   yieldedContent titleDocument (str ''h1'') = str ''Sunset'' \<and>
   yieldedContent titleDocument (str ''meta[property=\"og:title\"]'') = str ''Sunset over sea''"
  by (simp add: yieldedContent_def titleDocument_def str_def trim_def isWhiteSpace_def)

theorem extractWithSelectors_first_nonempty_witness:
  "extractWithSelectors titleDocument
     [str ''.asset-title'', str ''h1'', str ''meta[property=\"og:title\"]''] = str ''Sunset'' \<and>
   extractWithSelectors titleDocument [str ''.asset-title'', str ''.asset-name''] = []"
proof -
  have y: "yieldedContent titleDocument (str ''.asset-name'') = []"
    by (simp add: yieldedContent_def titleDocument_def str_def)
  have 1: "[str ''.asset-title'', str ''h1'', str ''meta[property=\"og:title\"]''] =
       [str ''.asset-title''] @ str ''h1'' # [str ''meta[property=\"og:title\"]'']" by simp
  have 2: "\<forall>p \<in> set [str ''.asset-title'']. yieldedContent titleDocument p = []"
    using titleDocument_example by simp
  have 3: "yieldedContent titleDocument (str ''h1'') \<noteq> []"
    using titleDocument_example by (simp add: str_def)
  have 4: "\<forall>p \<in> set [str ''.asset-title'', str ''.asset-name'']. yieldedContent titleDocument p = []"
    using titleDocument_example y by simp
  from extractWithSelectors_first_nonempty [of "[str ''.asset-title'', str ''h1'', str ''meta[property=\"og:title\"]'']" titleDocument] 1 2 3
  have "extractWithSelectors titleDocument
     [str ''.asset-title'', str ''h1'', str ''meta[property=\"og:title\"]''] = yieldedContent titleDocument (str ''h1'')"
    by blast
  moreover from extractWithSelectors_first_nonempty [of "[str ''.asset-title'', str ''.asset-name'']" titleDocument] 4
  have "extractWithSelectors titleDocument [str ''.asset-title'', str ''.asset-name''] = []"
    by blast
  ultimately show ?thesis using titleDocument_example by simp
qed

subsection \<open>Tags: accumulation over all selectors\<close>

lemma eachElement_distinct: "distinct results \<Longrightarrow> distinct (eachElement els results)"
  by (induction els arbitrary: results) (auto simp: Let_def)

lemma extractArrayLoop_distinct:
  "distinct results \<Longrightarrow> distinct (extractArrayLoop dollar selectors results)"
  by (induction selectors arbitrary: results) (simp_all add: eachElement_distinct)

lemma extractArrayWithSelectors_distinct: "distinct (extractArrayWithSelectors dollar selectors)"
  by (simp add: extractArrayWithSelectors_def extractArrayLoop_distinct)

lemma cleanText_nature:
  "cleanText (str ''nature'') = str ''nature'' \<and> cleanText (str ''nature,'') = str ''nature''"
  by (simp add: cleanText_def trim_def stripNonWordEnds_def str_def isWhiteSpace_def
      isNonWordChar_def isWordChar_def)

text \<open>
  Claim C3. The claim says that the tags of the extracted metadata contain no duplicate
  string. The accumulation of \<open>extractArrayWithSelectors\<close> is free of duplicates, but
  \<open>extractGenericMetadata\<close> cleans every tag after the deduplication: on a document with
  the two tag elements \<open>nature\<close> and \<open>nature,\<close> the raw accumulation keeps both, and
  the tags field is \<open>nature, nature\<close>.
\<close>

theorem extractGenericMetadata_tags_duplicate:
  "extractArrayWithSelectors twoTagsDocument [str ''.tag''] = [str ''nature'', str ''nature,''] \<and>
   extractGenericMetadata_tags twoTagsDocument [str ''.tag''] = [str ''nature'', str ''nature''] \<and>
   \<not> distinct (extractGenericMetadata_tags twoTagsDocument [str ''.tag''])"
proof -
  have raw: "extractArrayWithSelectors twoTagsDocument [str ''.tag''] = [str ''nature'', str ''nature,'']"
    by (simp add: extractArrayWithSelectors_def twoTagsDocument_def Let_def
        trim_def str_def isWhiteSpace_def)
  have tags: "extractGenericMetadata_tags twoTagsDocument [str ''.tag''] = [str ''nature'', str ''nature'']"
    unfolding extractGenericMetadata_tags_def raw using cleanText_nature by (simp add: str_def)
  show ?thesis unfolding tags using raw by simp
qed

subsection \<open>Text cleaning (base-scraper.ts, cleanText)\<close>

lemma isWhiteSpace_32: "isWhiteSpace 32"
  by (simp add: isWhiteSpace_def)

lemma whiteSpace_nonWord: "isWhiteSpace c \<Longrightarrow> isNonWordChar c"
  by (auto simp: isWhiteSpace_def isNonWordChar_def isWordChar_def)

lemma replace_head_nonws:
  "(case xs of [] \<Rightarrow> True | e # _ \<Rightarrow> \<not> isWhiteSpace e) \<Longrightarrow>
   (case replaceWhiteSpaceRuns xs of [] \<Rightarrow> True | d # _ \<Rightarrow> \<not> isWhiteSpace d)"
  by (cases xs) auto

lemma dropWhile_head: "(case dropWhile P cs of [] \<Rightarrow> True | d # _ \<Rightarrow> \<not> P d)"
  by (induction cs) auto

lemma wsNormal_replace: "wsNormal (replaceWhiteSpaceRuns s)"
proof (induction s rule: replaceWhiteSpaceRuns.induct)
  case 1
  then show ?case by simp
next
  case (2 c cs)
  show ?case
  proof (cases "isWhiteSpace c")
    case True
    have "case replaceWhiteSpaceRuns (dropWhile isWhiteSpace cs) of [] \<Rightarrow> True
          | d # _ \<Rightarrow> \<not> isWhiteSpace d"
      by (rule replace_head_nonws) (rule dropWhile_head)
    with True 2 show ?thesis by simp
  next
    case False
    then show ?thesis using 2 by simp
  qed
qed

lemma wsNormal_append: "wsNormal (xs @ ys) \<Longrightarrow> wsNormal xs \<and> wsNormal ys"
proof (induction xs)
  case Nil
  then show ?case by simp
next
  case (Cons c cs)
  then show ?case by (cases cs) simp_all
qed

lemma wsNormal_dropWhile: "wsNormal xs \<Longrightarrow> wsNormal (dropWhile P xs)"
  using wsNormal_append [of "takeWhile P xs" "dropWhile P xs"] by simp

lemma rev_dropWhile_rev_prefix:
  "rev (dropWhile P (rev xs)) @ rev (takeWhile P (rev xs)) = xs"
proof -
  have "rev (takeWhile P (rev xs) @ dropWhile P (rev xs)) = xs" by simp
  then show ?thesis by (simp only: rev_append)
qed

lemma wsNormal_dropEnd: "wsNormal xs \<Longrightarrow> wsNormal (rev (dropWhile P (rev xs)))"
  using wsNormal_append [of "rev (dropWhile P (rev xs))" "rev (takeWhile P (rev xs))"]
  by (simp only: rev_dropWhile_rev_prefix)

lemma wsNormal_strip: "wsNormal xs \<Longrightarrow> wsNormal (stripNonWordEnds xs)"
  by (simp add: stripNonWordEnds_def wsNormal_dropWhile wsNormal_dropEnd)

lemma dropEnd_last: "rev (dropWhile P (rev xs)) \<noteq> [] \<Longrightarrow> \<not> P (last (rev (dropWhile P (rev xs))))"
  using dropWhile_head [of P "rev xs"]
  by (cases "dropWhile P (rev xs)") (auto simp: last_rev)

lemma dropEnd_hd:
  assumes "xs \<noteq> []" "\<not> P (hd xs)" "rev (dropWhile P (rev xs)) \<noteq> []"
  shows "hd (rev (dropWhile P (rev xs))) = hd xs"
proof -
  have "rev (dropWhile P (rev xs)) @ rev (takeWhile P (rev xs)) = xs"
    by (rule rev_dropWhile_rev_prefix)
  then show ?thesis using assms(3) by (metis hd_append2)
qed

lemma strip_ends:
  assumes "stripNonWordEnds s \<noteq> []"
  shows "isWordChar (hd (stripNonWordEnds s)) \<and> isWordChar (last (stripNonWordEnds s))"
proof -
  let ?d = "dropWhile isNonWordChar s"
  have ne: "?d \<noteq> []"
  proof
    assume a: "?d = []"
    have "stripNonWordEnds s = []"
      by (simp only: stripNonWordEnds_def a rev.simps dropWhile.simps)
    with assms show False by simp
  qed
  then have h: "\<not> isNonWordChar (hd ?d)" by (simp add: hd_dropWhile)
  have "hd (stripNonWordEnds s) = hd ?d"
    unfolding stripNonWordEnds_def
    using dropEnd_hd [of ?d isNonWordChar] ne h assms
    by (simp add: stripNonWordEnds_def)
  moreover have "\<not> isNonWordChar (last (stripNonWordEnds s))"
    unfolding stripNonWordEnds_def using dropEnd_last assms
    by (simp add: stripNonWordEnds_def)
  ultimately show ?thesis using h by (simp add: isNonWordChar_def)
qed

lemma dropEnd_id: "xs \<noteq> [] \<Longrightarrow> \<not> P (last xs) \<Longrightarrow> rev (dropWhile P (rev xs)) = xs"
  by (cases "rev xs") (auto simp: last_rev dest: arg_cong [where f = rev])

lemma dropWhile_id: "xs \<noteq> [] \<Longrightarrow> \<not> P (hd xs) \<Longrightarrow> dropWhile P xs = xs"
  by (cases xs) auto

lemma word_ends_fixed:
  assumes "xs = [] \<or> (isWordChar (hd xs) \<and> isWordChar (last xs))"
  shows "stripNonWordEnds xs = xs" and "trim xs = xs"
proof -
  show "stripNonWordEnds xs = xs"
  proof (cases "xs = []")
    case True then show ?thesis by (simp add: stripNonWordEnds_def)
  next
    case False
    with assms have "\<not> isNonWordChar (hd xs)" "\<not> isNonWordChar (last xs)"
      by (simp_all add: isNonWordChar_def)
    with False show ?thesis
      by (simp add: stripNonWordEnds_def dropWhile_id dropEnd_id)
  qed
  show "trim xs = xs"
  proof (cases "xs = []")
    case True then show ?thesis by (simp add: trim_def)
  next
    case False
    with assms have "\<not> isWhiteSpace (hd xs)" "\<not> isWhiteSpace (last xs)"
      using whiteSpace_nonWord by (auto simp: isNonWordChar_def)
    with False show ?thesis
      by (simp add: trim_def dropWhile_id dropEnd_id)
  qed
qed

lemma replace_wsNormal_id: "wsNormal xs \<Longrightarrow> replaceWhiteSpaceRuns xs = xs"
proof (induction xs rule: replaceWhiteSpaceRuns.induct)
  case 1
  then show ?case by simp
next
  case (2 c cs)
  then show ?case by (cases cs) auto
qed

lemma cleanText_eq: "cleanText s = stripNonWordEnds (replaceWhiteSpaceRuns s)"
  unfolding cleanText_def
  by (rule word_ends_fixed(2)) (use strip_ends in blast)

lemma wsNormal_cleanText: "wsNormal (cleanText s)"
  by (simp add: cleanText_eq wsNormal_strip wsNormal_replace)

lemma cleanText_ends:
  "cleanText s = [] \<or> (isWordChar (hd (cleanText s)) \<and> isWordChar (last (cleanText s)))"
  unfolding cleanText_eq using strip_ends by blast

lemma wsNormal_adjacent:
  "wsNormal xs \<Longrightarrow> Suc i < length xs \<Longrightarrow> \<not> (isWhiteSpace (xs ! i) \<and> isWhiteSpace (xs ! Suc i))"
proof (induction xs arbitrary: i)
  case Nil
  then show ?case by simp
next
  case (Cons c cs)
  then show ?case by (cases i; cases cs) auto
qed

text \<open>
  Claim C10. The text-cleaning function is idempotent: for every input string \<open>s\<close>,
  \<open>cleanText (cleanText s) = cleanText s\<close>; its output, when not empty, begins and ends
  with a word character (so it has no leading or trailing non-word character), and no
  two consecutive code units of the output are both white space.
\<close>

theorem cleanText_idempotent:
  "cleanText (cleanText s) = cleanText s \<and>
   (cleanText s \<noteq> [] \<longrightarrow> isWordChar (hd (cleanText s)) \<and> isWordChar (last (cleanText s))) \<and>
   (\<forall>i. Suc i < length (cleanText s) \<longrightarrow>
        \<not> (isWhiteSpace (cleanText s ! i) \<and> isWhiteSpace (cleanText s ! Suc i)))"
proof -
  have "replaceWhiteSpaceRuns (cleanText s) = cleanText s"
    by (rule replace_wsNormal_id) (rule wsNormal_cleanText)
  moreover have "stripNonWordEnds (cleanText s) = cleanText s"
    by (rule word_ends_fixed(1)) (rule cleanText_ends)
  moreover have "trim (cleanText s) = cleanText s"
    by (rule word_ends_fixed(2)) (rule cleanText_ends)
  ultimately have "cleanText (cleanText s) = cleanText s"
    by (simp add: cleanText_def [of "cleanText s"])
  then show ?thesis
    using cleanText_ends [of s] wsNormal_adjacent [OF wsNormal_cleanText, of _ s] by blast
qed

lemma cleanText_example:
  "cleanText (str ''  --Hello,   World!  '') = str ''Hello, World''"
  by (simp add: cleanText_def trim_def stripNonWordEnds_def str_def isWhiteSpace_def
      isNonWordChar_def isWordChar_def)

theorem cleanText_idempotent_witness:
  "cleanText (str ''  --Hello,   World!  '') \<noteq> [] \<and>
   Suc 5 < length (cleanText (str ''  --Hello,   World!  '')) \<and>
   cleanText (cleanText (str ''  --Hello,   World!  '')) = cleanText (str ''  --Hello,   World!  '') \<and>
   isWordChar (hd (cleanText (str ''  --Hello,   World!  ''))) \<and>
   isWordChar (last (cleanText (str ''  --Hello,   World!  ''))) \<and>
   \<not> (isWhiteSpace (cleanText (str ''  --Hello,   World!  '') ! 5) \<and>
      isWhiteSpace (cleanText (str ''  --Hello,   World!  '') ! Suc 5))"
proof -
  have ne: "cleanText (str ''  --Hello,   World!  '') \<noteq> []"
    by (simp only: cleanText_example) (simp add: str_def)
  have len: "Suc 5 < length (cleanText (str ''  --Hello,   World!  ''))"
    by (simp only: cleanText_example) (simp add: str_def)
  from cleanText_idempotent [of "str ''  --Hello,   World!  ''"] ne len
  show ?thesis by blast
qed

end
